theory Spec2Isabelle
  imports Complex_Main "HOL-Library.Sublist"
begin

section \<open>The panel data loader of the dashboard (usePanelDataLoader.ts)\<close>

text \<open>
  A shallow embedding of \<^verbatim>\<open>web/src/composables/dashboard/usePanelDataLoader.ts\<close>:
  the interval bucketing, the rate window and its formatter, the textual substitution of
  variables, the change detection on the variables, and the fetch orchestration
  \<^verbatim>\<open>loadData\<close> with its promise handlers.
\<close>

subsection \<open>JavaScript numbers\<close>

text \<open>
  A JavaScript number is modelled as an exact rational or one of the three special values
  of IEEE 754. The rounding of binary floating point and the sign of zero are not modelled.
  A division never throws: a zero divisor gives an infinity or NaN.
\<close>

datatype jsnum = Fin rat | PInf | NInf | NaN

fun jsdiv :: "jsnum \<Rightarrow> jsnum \<Rightarrow> jsnum" where
  "jsdiv (Fin a) (Fin b) =
     (if b = 0 then (if a = 0 then NaN else if 0 < a then PInf else NInf) else Fin (a / b))"
| "jsdiv (Fin a) PInf = Fin 0"
| "jsdiv (Fin a) NInf = Fin 0"
| "jsdiv (Fin a) NaN = NaN"
| "jsdiv PInf (Fin b) = (if 0 \<le> b then PInf else NInf)"
| "jsdiv PInf PInf = NaN"
| "jsdiv PInf NInf = NaN"
| "jsdiv PInf NaN = NaN"
| "jsdiv NInf (Fin b) = (if 0 \<le> b then NInf else PInf)"
| "jsdiv NInf PInf = NaN"
| "jsdiv NInf NInf = NaN"
| "jsdiv NInf NaN = NaN"
| "jsdiv NaN y = NaN"

text \<open>\<^verbatim>\<open>x <= c\<close> and \<^verbatim>\<open>x < c\<close> against a finite constant: false on NaN.\<close>

fun jsle :: "jsnum \<Rightarrow> rat \<Rightarrow> bool" where
  "jsle (Fin a) c = (a \<le> c)"
| "jsle NInf c = True"
| "jsle PInf c = False"
| "jsle NaN c = False"

fun jslt :: "jsnum \<Rightarrow> rat \<Rightarrow> bool" where
  "jslt (Fin a) c = (a < c)"
| "jslt NInf c = True"
| "jslt PInf c = False"
| "jslt NaN c = False"

subsection \<open>Interval bucketing\<close>

text \<open>The object \<^verbatim>\<open>{value, unit}\<close> that \<^verbatim>\<open>formatInterval\<close> returns.\<close>

record interval_spec =
  "value" :: nat
  unit :: string

definition formatInterval :: "jsnum \<Rightarrow> interval_spec" where
  "formatInterval interval =
    (if jsle interval 10 then \<lparr>value = 1, unit = ''ms''\<rparr>
     else if jsle interval 15 then \<lparr>value = 10, unit = ''ms''\<rparr>
     else if jsle interval 35 then \<lparr>value = 20, unit = ''ms''\<rparr>
     else if jsle interval 75 then \<lparr>value = 50, unit = ''ms''\<rparr>
     else if jsle interval 150 then \<lparr>value = 100, unit = ''ms''\<rparr>
     else if jsle interval 350 then \<lparr>value = 200, unit = ''ms''\<rparr>
     else if jsle interval 750 then \<lparr>value = 500, unit = ''ms''\<rparr>
     else if jsle interval 1500 then \<lparr>value = 1, unit = ''s''\<rparr>
     else if jsle interval 3500 then \<lparr>value = 2, unit = ''s''\<rparr>
     else if jsle interval 7500 then \<lparr>value = 5, unit = ''s''\<rparr>
     else if jsle interval 12500 then \<lparr>value = 10, unit = ''s''\<rparr>
     else if jsle interval 17500 then \<lparr>value = 15, unit = ''s''\<rparr>
     else if jsle interval 25000 then \<lparr>value = 20, unit = ''s''\<rparr>
     else if jsle interval 45000 then \<lparr>value = 30, unit = ''s''\<rparr>
     else if jsle interval 90000 then \<lparr>value = 1, unit = ''m''\<rparr>
     else if jsle interval 210000 then \<lparr>value = 2, unit = ''m''\<rparr>
     else if jsle interval 450000 then \<lparr>value = 5, unit = ''m''\<rparr>
     else if jsle interval 750000 then \<lparr>value = 10, unit = ''m''\<rparr>
     else if jsle interval 1050000 then \<lparr>value = 15, unit = ''m''\<rparr>
     else if jsle interval 1500000 then \<lparr>value = 20, unit = ''m''\<rparr>
     else if jsle interval 2700000 then \<lparr>value = 30, unit = ''m''\<rparr>
     else if jsle interval 5400000 then \<lparr>value = 1, unit = ''h''\<rparr>
     else if jsle interval 9000000 then \<lparr>value = 2, unit = ''h''\<rparr>
     else if jsle interval 16200000 then \<lparr>value = 3, unit = ''h''\<rparr>
     else if jsle interval 32400000 then \<lparr>value = 6, unit = ''h''\<rparr>
     else if jsle interval 86400000 then \<lparr>value = 12, unit = ''h''\<rparr>
     else if jsle interval 172800000 then \<lparr>value = 24, unit = ''h''\<rparr>
     else if jsle interval 604800000 then \<lparr>value = 24, unit = ''h''\<rparr>
     else if jsle interval 1814400000 then \<lparr>value = 1, unit = ''w''\<rparr>
     else if jslt interval 3628800000 then \<lparr>value = 30, unit = ''d''\<rparr>
     else \<lparr>value = 1, unit = ''y''\<rparr>)"

text \<open>
  The table as the specification words it: the breakpoints with an inclusive upper bound,
  in ascending order, then the strict bound of the 30d bucket, then the fallback.
\<close>

definition spec_breakpoints :: "(rat \<times> interval_spec) list" where
  "spec_breakpoints =
    [(10, \<lparr>value = 1, unit = ''ms''\<rparr>), (15, \<lparr>value = 10, unit = ''ms''\<rparr>),
     (35, \<lparr>value = 20, unit = ''ms''\<rparr>), (75, \<lparr>value = 50, unit = ''ms''\<rparr>),
     (150, \<lparr>value = 100, unit = ''ms''\<rparr>), (350, \<lparr>value = 200, unit = ''ms''\<rparr>),
     (750, \<lparr>value = 500, unit = ''ms''\<rparr>), (1500, \<lparr>value = 1, unit = ''s''\<rparr>),
     (3500, \<lparr>value = 2, unit = ''s''\<rparr>), (7500, \<lparr>value = 5, unit = ''s''\<rparr>),
     (12500, \<lparr>value = 10, unit = ''s''\<rparr>), (17500, \<lparr>value = 15, unit = ''s''\<rparr>),
     (25000, \<lparr>value = 20, unit = ''s''\<rparr>), (45000, \<lparr>value = 30, unit = ''s''\<rparr>),
     (90000, \<lparr>value = 1, unit = ''m''\<rparr>), (210000, \<lparr>value = 2, unit = ''m''\<rparr>),
     (450000, \<lparr>value = 5, unit = ''m''\<rparr>), (750000, \<lparr>value = 10, unit = ''m''\<rparr>),
     (1050000, \<lparr>value = 15, unit = ''m''\<rparr>), (1500000, \<lparr>value = 20, unit = ''m''\<rparr>),
     (2700000, \<lparr>value = 30, unit = ''m''\<rparr>), (5400000, \<lparr>value = 1, unit = ''h''\<rparr>),
     (9000000, \<lparr>value = 2, unit = ''h''\<rparr>), (16200000, \<lparr>value = 3, unit = ''h''\<rparr>),
     (32400000, \<lparr>value = 6, unit = ''h''\<rparr>), (86400000, \<lparr>value = 12, unit = ''h''\<rparr>),
     (172800000, \<lparr>value = 24, unit = ''h''\<rparr>), (604800000, \<lparr>value = 24, unit = ''h''\<rparr>),
     (1814400000, \<lparr>value = 1, unit = ''w''\<rparr>)]"

definition spec_bucket :: "jsnum \<Rightarrow> interval_spec" where
  "spec_bucket x =
    (case find (\<lambda>bp. jsle x (fst bp)) spec_breakpoints of
       Some bp \<Rightarrow> snd bp
     | None \<Rightarrow> if jslt x 3628800000 then \<lparr>value = 30, unit = ''d''\<rparr>
               else \<lparr>value = 1, unit = ''y''\<rparr>)"

subsection \<open>Rate window\<close>

definition getTimeInSecondsBasedOnUnit :: "rat \<Rightarrow> string \<Rightarrow> rat" where
  "getTimeInSecondsBasedOnUnit seconds u =
    (if u = ''ms'' then seconds / 1000
     else if u = ''s'' then seconds
     else if u = ''m'' then seconds * 60
     else if u = ''h'' then seconds * 60 * 60
     else if u = ''d'' then seconds * 60 * 60 * 24
     else if u = ''w'' then seconds * 60 * 60 * 24 * 7
     else if u = ''y'' then seconds * 60 * 60 * 24 * 7 * 12
     else seconds)"

text \<open>
  The fixed values computed at the head of \<^verbatim>\<open>replaceQueryValue\<close>. The organization's
  \<^verbatim>\<open>scrape_interval\<close> is \<open>None\<close> when it is null or undefined; the two timestamps are
  epoch milliseconds; \<^verbatim>\<open>chartPanelRef.value?.offsetWidth\<close> is \<open>None\<close> when the element
  or its width is absent.
\<close>

definition scrapeInterval :: "rat option \<Rightarrow> rat" where
  "scrapeInterval scrape_interval = (case scrape_interval of None \<Rightarrow> 15 | Some v \<Rightarrow> v)"

text \<open>\<^verbatim>\<open>__interval = ((endISOTimestamp - startISOTimestamp)/(offsetWidth ?? 1000))/1000\<close>\<close>

definition interval :: "int \<Rightarrow> int \<Rightarrow> int option \<Rightarrow> jsnum" where
  "interval startISOTimestamp endISOTimestamp offsetWidth =
    jsdiv
      (jsdiv (Fin (of_int (endISOTimestamp - startISOTimestamp)))
             (Fin (of_int (case offsetWidth of None \<Rightarrow> 1000 | Some w \<Rightarrow> w))))
      (Fin 1000)"

definition formattedInterval :: "int \<Rightarrow> int \<Rightarrow> int option \<Rightarrow> interval_spec" where
  "formattedInterval startISOTimestamp endISOTimestamp offsetWidth =
    formatInterval (interval startISOTimestamp endISOTimestamp offsetWidth)"

definition rate_interval :: "rat option \<Rightarrow> int \<Rightarrow> int \<Rightarrow> int option \<Rightarrow> rat" where
  "rate_interval scrape_interval startISOTimestamp endISOTimestamp offsetWidth =
    (let fi = formattedInterval startISOTimestamp endISOTimestamp offsetWidth
     in max (getTimeInSecondsBasedOnUnit (of_nat (value fi)) (unit fi)
               + scrapeInterval scrape_interval)
            (4 * scrapeInterval scrape_interval))"

definition interval_ms :: "int \<Rightarrow> int \<Rightarrow> int option \<Rightarrow> rat" where
  "interval_ms startISOTimestamp endISOTimestamp offsetWidth =
    (let fi = formattedInterval startISOTimestamp endISOTimestamp offsetWidth
     in getTimeInSecondsBasedOnUnit (of_nat (value fi)) (unit fi) * 1000)"

text \<open>
  The conversion table and the rate window as the specification words them.
\<close>

definition spec_unit_to_seconds :: "(string \<times> rat) list" where
  "spec_unit_to_seconds =
    [(''ms'', 1 / 1000), (''s'', 1), (''m'', 60), (''h'', 3600), (''d'', 86400),
     (''w'', 604800), (''y'', 7257600)]"

definition spec_bucketSeconds :: "interval_spec \<Rightarrow> rat option" where
  "spec_bucketSeconds b = map_option (\<lambda>f. of_nat (value b) * f) (map_of spec_unit_to_seconds (unit b))"

definition spec_rateWindowSeconds :: "rat \<Rightarrow> rat \<Rightarrow> rat" where
  "spec_rateWindowSeconds bucket scrape = max (bucket + scrape) (4 * scrape)"

subsection \<open>Formatting the rate window\<close>

text \<open>
  \<^verbatim>\<open>Number.prototype.toString\<close> on a non-negative integer: its decimal digits.
\<close>

definition digit :: "nat \<Rightarrow> char" where
  "digit n = ''0123456789'' ! n"

fun toString :: "nat \<Rightarrow> string" where
  "toString n = (if n < 10 then [digit n] else toString (n div 10) @ [digit (n mod 10)])"

declare toString.simps [simp del]

text \<open>
  \<^verbatim>\<open>formateRateInterval\<close> on a whole, non-negative number of seconds, where
  \<^verbatim>\<open>Math.floor(a / b)\<close> is \<open>div\<close> and \<^verbatim>\<open>%\<close> is \<open>mod\<close>.
\<close>

definition formateRateInterval :: "nat \<Rightarrow> string" where
  "formateRateInterval i =
    (let formattedStr = [];
         days = i div (3600 * 24);
         formattedStr = (if days > 0 then formattedStr @ toString days @ ''d'' else formattedStr);
         hours = (i mod (3600 * 24)) div 3600;
         formattedStr = (if hours > 0 then formattedStr @ toString hours @ ''h'' else formattedStr);
         minutes = (i mod 3600) div 60;
         formattedStr = (if minutes > 0 then formattedStr @ toString minutes @ ''m'' else formattedStr);
         remainingSeconds = i mod 60;
         formattedStr = (if remainingSeconds > 0 then formattedStr @ toString remainingSeconds @ ''s''
                         else formattedStr)
     in formattedStr)"

text \<open>One component of the rendering as the specification words it: absent when zero.\<close>

definition spec_component :: "nat \<Rightarrow> string \<Rightarrow> string" where
  "spec_component n letter = (if n = 0 then [] else toString n @ letter)"

subsection \<open>Strings\<close>

text \<open>
  \<^verbatim>\<open>String.prototype.includes\<close> and \<^verbatim>\<open>String.prototype.replaceAll\<close> with a string as
  the search value, as ECMAScript defines them. A string is a list of characters (code
  units; the model's characters are bytes, which is the same on ASCII text).
\<close>

fun str_includes :: "string \<Rightarrow> string \<Rightarrow> bool" where
  "str_includes [] searchString = (searchString = [])"
| "str_includes (c # cs) searchString =
     (prefix searchString (c # cs) \<or> str_includes cs searchString)"

text \<open>
  \<^verbatim>\<open>GetSubstitution\<close>: the replacement text is a template in which \<^verbatim>\<open>$$\<close> stands for a
  dollar sign, \<^verbatim>\<open>$&\<close> for the matched text, \<^verbatim>\<open>$`\<close> (character 0x60) for the text
  before the match and \<^verbatim>\<open>$'\<close> (character 0x27) for the text after it. With a string as
  search value there are no capture groups, so every other character, a dollar sign
  included, stands for itself.
\<close>

fun GetSubstitution :: "string \<Rightarrow> string \<Rightarrow> string \<Rightarrow> string \<Rightarrow> string" where
  "GetSubstitution matched preceding following [] = []"
| "GetSubstitution matched preceding following [c] = [c]"
| "GetSubstitution matched preceding following (c # d # t) =
     (if c = CHR ''$'' \<and> d = CHR ''$'' then CHR ''$'' # GetSubstitution matched preceding following t
      else if c = CHR ''$'' \<and> d = CHR ''&'' then matched @ GetSubstitution matched preceding following t
      else if c = CHR ''$'' \<and> d = CHR 0x60 then preceding @ GetSubstitution matched preceding following t
      else if c = CHR ''$'' \<and> d = CHR 0x27 then following @ GetSubstitution matched preceding following t
      else c # GetSubstitution matched preceding following (d # t))"

text \<open>
  The scan of \<^verbatim>\<open>replaceAll\<close>, left to right over non-overlapping matches: \<open>preceding\<close> is
  the part of the string already passed, \<open>rest\<close> the part still to scan. An empty search
  value matches before every character and at the end.
\<close>

function replaceAll_from :: "string \<Rightarrow> string \<Rightarrow> string \<Rightarrow> string \<Rightarrow> string" where
  "replaceAll_from searchValue replaceValue preceding rest =
     (if prefix searchValue rest then
        GetSubstitution searchValue preceding (drop (length searchValue) rest) replaceValue @
          (if searchValue = [] then
             (case rest of [] \<Rightarrow> []
              | c # cs \<Rightarrow> c # replaceAll_from searchValue replaceValue (preceding @ [c]) cs)
           else replaceAll_from searchValue replaceValue (preceding @ searchValue)
                  (drop (length searchValue) rest))
      else (case rest of [] \<Rightarrow> []
            | c # cs \<Rightarrow> c # replaceAll_from searchValue replaceValue (preceding @ [c]) cs))"
  by pat_completeness auto
termination
  by (relation "measure (\<lambda>(searchValue, replaceValue, preceding, rest). length rest)")
     (auto simp: prefix_def)

declare replaceAll_from.simps [simp del]

definition replaceAll :: "string \<Rightarrow> string \<Rightarrow> string \<Rightarrow> string" where
  "replaceAll str searchValue replaceValue = replaceAll_from searchValue replaceValue [] str"

subsection \<open>Substitution of variables\<close>

text \<open>
  An entry \<^verbatim>\<open>{type, name, value, operator}\<close> of the metadata ledger; \<^verbatim>\<open>operator\<close> is present
  on the entries of ad-hoc filters only.
\<close>

record ledger_entry =
  entry_type :: string
  entry_name :: string
  entry_value :: string
  entry_operator :: "string option"

text \<open>
  The body of the two \<^verbatim>\<open>forEach\<close> loops of \<^verbatim>\<open>replaceQueryValue\<close>, on a variable given by
  its name and its value (already a string), with the ledger type \<^verbatim>\<open>"fixed"\<close> or
  \<^verbatim>\<open>"variable"\<close>: the ledger is extended when the running query includes the token, and
  the token is replaced in either case.
\<close>

definition substitute ::
  "string \<Rightarrow> string \<times> string \<Rightarrow> string \<times> ledger_entry list \<Rightarrow> string \<times> ledger_entry list" where
  "substitute ty variable acc =
    (let query = fst acc; metadata = snd acc;
         variableName = CHR ''$'' # fst variable;
         variableValue = snd variable;
         metadata = (if str_includes query variableName
                     then metadata @ [\<lparr>entry_type = ty, entry_name = fst variable,
                                       entry_value = snd variable, entry_operator = None\<rparr>]
                     else metadata);
         query = replaceAll query variableName variableValue
     in (query, metadata))"

text \<open>
  A variable of the dashboard, \<^verbatim>\<open>{name, type, value, isLoading}\<close>: \<open>vtype\<close> is the field
  \<^verbatim>\<open>type\<close>, and \<open>var_value\<close> is the field \<^verbatim>\<open>value\<close> as the string that a template or
  \<^verbatim>\<open>replaceAll\<close> turns it into. An absent list \<^verbatim>\<open>variablesData.value?.values\<close> behaves in
  every function below as the empty list does.
\<close>

record variable =
  name :: string
  vtype :: string
  var_value :: string
  isLoading :: bool

text \<open>
  \<^verbatim>\<open>replaceQueryValue\<close>: the fixed variables first, then the variables of the snapshot
  \<^verbatim>\<open>currentDependentVariablesData\<close>, each in list order. The three fixed variables
  \<^verbatim>\<open>__interval_ms\<close>, \<^verbatim>\<open>__interval\<close> and \<^verbatim>\<open>__rate_interval\<close> enter as the list of their
  names and values: their values are JavaScript numbers rendered by template strings.
\<close>

definition replaceQueryValue ::
  "(string \<times> string) list \<Rightarrow> variable list \<Rightarrow> string \<Rightarrow> string \<times> ledger_entry list" where
  "replaceQueryValue fixedVariables currentDependentVariablesData query =
    (let acc = foldl (\<lambda>acc variable. substitute ''fixed'' variable acc) (query, []) fixedVariables
     in if length currentDependentVariablesData \<noteq> 0
        then foldl (\<lambda>acc variable. substitute ''variable'' (name variable, var_value variable) acc)
               acc currentDependentVariablesData
        else acc)"

subsection \<open>The dependency gate and the change detection\<close>

text \<open>
  The variables that are not ad-hoc filters and whose token occurs in one of the queries:
  the two \<^verbatim>\<open>filter\<close> calls shared by \<^verbatim>\<open>isQueryDependentOnTheVariables\<close>,
  \<^verbatim>\<open>canRunQueryBasedOnVariables\<close> and the watcher of the variables.
\<close>

definition dependentVariables :: "variable list \<Rightarrow> string list \<Rightarrow> variable list" where
  "dependentVariables values queries =
    filter (\<lambda>it. True \<in> set (map (\<lambda>q. str_includes q (CHR ''$'' # name it)) queries))
      (filter (\<lambda>it. vtype it \<noteq> ''ad-hoc-filters'') values)"

definition isQueryDependentOnTheVariables :: "variable list \<Rightarrow> string list \<Rightarrow> bool" where
  "isQueryDependentOnTheVariables values queries =
    (length (dependentVariables values queries) > 0)"

definition canRunQueryBasedOnVariables :: "variable list \<Rightarrow> string list \<Rightarrow> bool" where
  "canRunQueryBasedOnVariables values queries =
    (let dependentVariables = dependentVariables values queries
     in if length dependentVariables > 0
        then (let dependentAvailableVariables = filter (\<lambda>it. \<not> isLoading it) dependentVariables
              in if length dependentAvailableVariables = length dependentVariables
                 then True else False)
        else True)"

text \<open>
  \<^verbatim>\<open>shouldITriggerTheQueryForOtherVariables\<close>: the decision and the snapshot
  \<^verbatim>\<open>currentDependentVariablesData\<close> after it. \<^verbatim>\<open>oldValue?.value\<close> is \<open>None\<close> when no
  variable of the snapshot has the name.
\<close>

definition shouldITriggerTheQueryForOtherVariables ::
  "variable list \<Rightarrow> string list \<Rightarrow> variable list \<Rightarrow> bool \<times> variable list" where
  "shouldITriggerTheQueryForOtherVariables values queries currentDependentVariablesData =
    (let newDependentVariablesData = dependentVariables values queries
     in if length newDependentVariablesData = 0 then (False, currentDependentVariablesData)
        else
          (let isAllValuesSame =
                 list_all
                   (\<lambda>it. let oldValue = find (\<lambda>it2. name it2 = name it) currentDependentVariablesData
                          in Some (var_value it) = map_option var_value oldValue
                             \<and> map_option var_value oldValue \<noteq> Some [])
                   newDependentVariablesData
           in if \<not> isAllValuesSame then (True, newDependentVariablesData)
              else (False, currentDependentVariablesData)))"

text \<open>The condition of the claims on the gate: a loading, referenced, non-ad-hoc variable.\<close>

definition loading_dependency :: "variable list \<Rightarrow> string list \<Rightarrow> bool" where
  "loading_dependency values queries =
    list_ex (\<lambda>v. vtype v \<noteq> ''ad-hoc-filters'' \<and> isLoading v
               \<and> list_ex (\<lambda>q. str_includes q (CHR ''$'' # name v)) queries) values"

subsection \<open>The fetch orchestrator\<close>

datatype js_error = TypeError | RangeError

text \<open>A date object: an invalid one prints as \<^verbatim>\<open>"Invalid Date"\<close>.\<close>

datatype jsdate = InvalidDate | ValidDate int

text \<open>\<^verbatim>\<open>selectedTimeObj.value\<close>: a bound is \<open>None\<close> when it is missing.\<close>

record timestamps =
  start_time :: "jsdate option"
  end_time :: "jsdate option"

text \<open>
  The inputs of the composable that \<^verbatim>\<open>loadData\<close> reads: the query texts and the query
  type of \<^verbatim>\<open>panelSchema.value\<close>, the selected time and the variables.
\<close>

record panel_inputs =
  queries :: "string list"
  queryType :: string
  selectedTimeObj :: "timestamps option"
  "values" :: "variable list"

text \<open>The metadata of one sub-query, and the call to the execution service made for it.\<close>

record query_metadata =
  md_originalQuery :: string
  md_query :: string
  md_startTime :: int
  md_endTime :: int
  md_queryType :: string
  md_variables :: "ledger_entry list"

datatype api_call = Metrics_query_range string int int | Search string int int

text \<open>
  The reactive \<^verbatim>\<open>state\<close> of the loader together with the closure variables \<^verbatim>\<open>isDirty\<close>,
  \<^verbatim>\<open>isVisible\<close> and \<^verbatim>\<open>currentDependentVariablesData\<close>. \<open>metadata\<close> is \<open>None\<close> for the
  initial \<^verbatim>\<open>{}\<close> and \<open>Some qs\<close> for \<^verbatim>\<open>{queries: qs}\<close>. \<open>'r\<close> is the type of the result of
  one sub-query.
\<close>

record 'r loader =
  data :: "'r list"
  loading :: bool
  errorDetail :: string
  metadata :: "query_metadata list option"
  isDirty :: bool
  isVisible :: bool
  currentDependentVariablesData :: "variable list"

text \<open>
  The error object of a rejected call, by the four fields that \<^verbatim>\<open>processApiError\<close> reads:
  \<^verbatim>\<open>error.response?.data?.error\<close>, \<^verbatim>\<open>error.response?.data.error_detail\<close>,
  \<^verbatim>\<open>error.response?.data.message\<close> and \<^verbatim>\<open>error.message\<close>; \<open>None\<close> is undefined.
\<close>

record api_error =
  response_error :: "string option"
  response_error_detail :: "string option"
  response_message :: "string option"
  message :: "string option"

text \<open>\<^verbatim>\<open>a || b\<close> on strings that may be undefined: the empty string is falsy.\<close>

definition js_or :: "string option \<Rightarrow> string option \<Rightarrow> string option" where
  "js_or a b = (if a \<noteq> None \<and> a \<noteq> Some [] then a else b)"

definition trimmedErrorMessage :: "string \<Rightarrow> string" where
  "trimmedErrorMessage errorDetailValue =
    (if length errorDetailValue > 300 then take 300 errorDetailValue @ '' ...''
     else errorDetailValue)"

text \<open>
  \<^verbatim>\<open>processApiError\<close> is an async function that is called and not awaited. When the error
  value is undefined, reading its length throws inside it, which rejects its own promise
  and leaves the state as it was.
\<close>

definition processApiError :: "api_error \<Rightarrow> string \<Rightarrow> 'r loader \<Rightarrow> 'r loader" where
  "processApiError error ty state =
    (if ty = ''promql'' then
       (case js_or (response_error error) (message error) of
          None \<Rightarrow> state
        | Some errorDetailValue \<Rightarrow> state\<lparr>errorDetail := trimmedErrorMessage errorDetailValue\<rparr>)
     else if ty = ''sql'' then
       (case js_or (js_or (response_error_detail error) (response_message error)) (message error) of
          None \<Rightarrow> state
        | Some errorDetailValue \<Rightarrow> state\<lparr>errorDetail := trimmedErrorMessage errorDetailValue\<rparr>)
     else state)"

text \<open>How a call to the execution service settles.\<close>

datatype 'r settled = Resolved 'r | Rejected api_error

text \<open>
  The two handlers chained on a call, \<^verbatim>\<open>.then(...)\<close> and \<^verbatim>\<open>.catch(...)\<close>: their effect on
  the state, and the value the chained promise resolves with. The \<^verbatim>\<open>catch\<close> callback has
  no \<^verbatim>\<open>return\<close>, so its value is undefined (\<open>None\<close>). The branch for \<^verbatim>\<open>"promql"\<close> passes
  that type to \<^verbatim>\<open>processApiError\<close>, the other branch passes \<^verbatim>\<open>"sql"\<close>.
\<close>

definition handler_effect :: "string \<Rightarrow> 'r settled \<Rightarrow> 'r loader \<Rightarrow> 'r loader" where
  "handler_effect qt settled state =
    (case settled of
       Resolved res \<Rightarrow> state\<lparr>errorDetail := []\<rparr>
     | Rejected error \<Rightarrow> processApiError error (if qt = ''promql'' then ''promql'' else ''sql'') state)"

definition handler_value ::
  "query_metadata \<Rightarrow> 'r settled \<Rightarrow> ('r \<times> query_metadata) option" where
  "handler_value md settled =
    (case settled of Resolved res \<Rightarrow> Some (res, md) | Rejected error \<Rightarrow> None)"

text \<open>
  The handlers of one attempt run one after the other; \<open>order\<close> is the order in which
  they run (a list of positions of sub-queries), and \<open>outcome i\<close> is how call \<open>i\<close> settles.
\<close>

definition run_handlers ::
  "string \<Rightarrow> (nat \<Rightarrow> 'r settled) \<Rightarrow> nat list \<Rightarrow> 'r loader \<Rightarrow> 'r loader" where
  "run_handlers qt outcome order state =
    foldl (\<lambda>state i. handler_effect qt (outcome i) state) state order"

text \<open>
  \<^verbatim>\<open>queryResults.map((it) => it.result)\<close> and \<^verbatim>\<open>queryResults.map((it) => it.metadata)\<close>:
  reading a property of undefined throws a TypeError.
\<close>

fun map_result :: "('r \<times> query_metadata) option list \<Rightarrow> js_error + 'r list" where
  "map_result [] = Inr []"
| "map_result (None # its) = Inl TypeError"
| "map_result (Some it # its) =
     (case map_result its of Inl e \<Rightarrow> Inl e | Inr rs \<Rightarrow> Inr (fst it # rs))"

fun map_metadata :: "('r \<times> query_metadata) option list \<Rightarrow> js_error + query_metadata list" where
  "map_metadata [] = Inr []"
| "map_metadata (None # its) = Inl TypeError"
| "map_metadata (Some it # its) =
     (case map_metadata its of Inl e \<Rightarrow> Inl e | Inr ms \<Rightarrow> Inr (snd it # ms))"

text \<open>
  The code after \<^verbatim>\<open>await Promise.all(...)\<close>: three assignments in sequence, of which the
  second and the third may throw.
\<close>

definition loadData_complete ::
  "('r \<times> query_metadata) option list \<Rightarrow> 'r loader \<Rightarrow> (js_error + unit) \<times> 'r loader" where
  "loadData_complete queryResults state =
    (let state = state\<lparr>loading := False\<rparr>
     in case map_result queryResults of
          Inl e \<Rightarrow> (Inl e, state)
        | Inr rs \<Rightarrow>
            (let state = state\<lparr>data := rs\<rparr>
             in case map_metadata queryResults of
                  Inl e \<Rightarrow> (Inl e, state)
                | Inr ms \<Rightarrow> (Inr (), state\<lparr>metadata := Some ms\<rparr>)))"

text \<open>
  The time window of \<^verbatim>\<open>loadData\<close>: \<open>None\<close> when the condition on the two bounds fails
  (the \<^verbatim>\<open>else\<close> branch, which returns), otherwise the two conversions
  \<^verbatim>\<open>new Date(d.toISOString()).getTime()\<close>, which throw on a date that is invalid.
\<close>

fun getTime :: "jsdate option \<Rightarrow> js_error + int" where
  "getTime (Some (ValidDate t)) = Inr t"
| "getTime (Some InvalidDate) = Inl RangeError"
| "getTime None = Inl TypeError"

definition resolve_timestamps :: "timestamps option \<Rightarrow> (js_error + int \<times> int) option" where
  "resolve_timestamps ts =
    (case ts of
       None \<Rightarrow> None
     | Some timestamps \<Rightarrow>
        if start_time timestamps \<noteq> None \<and> end_time timestamps \<noteq> None
           \<and> start_time timestamps \<noteq> Some InvalidDate \<and> end_time timestamps \<noteq> Some InvalidDate
        then Some (case getTime (start_time timestamps) of
                     Inl e \<Rightarrow> Inl e
                   | Inr startISOTimestamp \<Rightarrow>
                       (case getTime (end_time timestamps) of
                          Inl e \<Rightarrow> Inl e
                        | Inr endISOTimestamp \<Rightarrow> Inr (startISOTimestamp, endISOTimestamp)))
        else None)"

text \<open>
  The callback of \<^verbatim>\<open>queries.map\<close> up to its call to the execution service: the call made
  for one sub-query and the metadata its \<^verbatim>\<open>then\<close> handler closes over. \<open>fixedVariables\<close>
  gives the fixed variables for a time range; \<open>applyAdhocVariables\<close> is the function of
  that name, which rewrites the query with utilities of other modules.
\<close>

definition dispatch ::
  "(int \<Rightarrow> int \<Rightarrow> (string \<times> string) list) \<Rightarrow> (string \<Rightarrow> string \<Rightarrow> string \<times> ledger_entry list)
   \<Rightarrow> panel_inputs \<Rightarrow> variable list \<Rightarrow> int \<Rightarrow> int \<Rightarrow> string \<Rightarrow> api_call \<times> query_metadata" where
  "dispatch fixedVariables applyAdhocVariables inp current startISOTimestamp endISOTimestamp it =
    (let r1 = replaceQueryValue (fixedVariables startISOTimestamp endISOTimestamp) current it;
         r2 = applyAdhocVariables (fst r1) (queryType inp);
         query = fst r2;
         md = \<lparr>md_originalQuery = it, md_query = query,
               md_startTime = startISOTimestamp, md_endTime = endISOTimestamp,
               md_queryType = queryType inp, md_variables = snd r1 @ snd r2\<rparr>
     in (if queryType inp = ''promql''
         then Metrics_query_range query startISOTimestamp endISOTimestamp
         else Search query startISOTimestamp endISOTimestamp,
         md))"

text \<open>
  The synchronous part of \<^verbatim>\<open>loadData\<close>, up to the calls to the execution service. It
  ends by an early return, by an exception (\<^verbatim>\<open>queries[0].query\<close> on an empty list), or
  with one call dispatched per sub-query.
\<close>

datatype begin_result =
  Returned | Threw js_error | Dispatched "(api_call \<times> query_metadata) list"

definition loadData_begin ::
  "(int \<Rightarrow> int \<Rightarrow> (string \<times> string) list) \<Rightarrow> (string \<Rightarrow> string \<Rightarrow> string \<times> ledger_entry list)
   \<Rightarrow> panel_inputs \<Rightarrow> 'r loader \<Rightarrow> begin_result \<times> 'r loader" where
  "loadData_begin fixedVariables applyAdhocVariables inp state =
    (let state = state\<lparr>isDirty := False\<rparr>
     in if isQueryDependentOnTheVariables (values inp) (queries inp)
           \<and> \<not> canRunQueryBasedOnVariables (values inp) (queries inp)
        then (Returned, state)
        else if queries inp = [] then (Threw TypeError, state)
        else
          (case resolve_timestamps (selectedTimeObj inp) of
             None \<Rightarrow> (Returned, state)
           | Some (Inl e) \<Rightarrow> (Threw e, state)
           | Some (Inr (startISOTimestamp, endISOTimestamp)) \<Rightarrow>
               (Dispatched
                  (map (dispatch fixedVariables applyAdhocVariables inp
                          (currentDependentVariablesData state) startISOTimestamp endISOTimestamp)
                     (queries inp)),
                state\<lparr>loading := True\<rparr>)))"

text \<open>
  One whole attempt: the synchronous part, then the handlers in the order in which they
  run, then the code after \<^verbatim>\<open>Promise.all\<close>, whose array is in sub-query order.
  An exception makes the promise of \<^verbatim>\<open>loadData\<close> reject (\<open>Inl\<close>).
\<close>

definition loadData ::
  "(int \<Rightarrow> int \<Rightarrow> (string \<times> string) list) \<Rightarrow> (string \<Rightarrow> string \<Rightarrow> string \<times> ledger_entry list)
   \<Rightarrow> panel_inputs \<Rightarrow> (nat \<Rightarrow> 'r settled) \<Rightarrow> nat list \<Rightarrow> 'r loader
   \<Rightarrow> (js_error + unit) \<times> 'r loader" where
  "loadData fixedVariables applyAdhocVariables inp outcome order state =
    (case loadData_begin fixedVariables applyAdhocVariables inp state of
       (Returned, state) \<Rightarrow> (Inr (), state)
     | (Threw e, state) \<Rightarrow> (Inl e, state)
     | (Dispatched calls, state) \<Rightarrow>
         loadData_complete
           (map (\<lambda>(i, call). handler_value (snd call) (outcome i)) (zip [0..<length calls] calls))
           (run_handlers (queryType inp) outcome order state))"

subsection \<open>The watchers\<close>

text \<open>
  The three watchers, each up to the synchronous part of the attempt it may start: the
  result is \<open>None\<close> when \<^verbatim>\<open>loadData\<close> is not called. \<open>inp\<close> holds the inputs after the
  change that fired the watcher. The decision of the variables' watcher on the ad-hoc
  filters, which reads and writes a snapshot of its own, enters as its result \<open>adHoc\<close>.
\<close>

definition hasAtLeastOneQuery :: "string list \<Rightarrow> bool" where
  "hasAtLeastOneQuery qs = list_ex (\<lambda>q. q \<noteq> []) qs"

definition watch_panel_and_time ::
  "(int \<Rightarrow> int \<Rightarrow> (string \<times> string) list) \<Rightarrow> (string \<Rightarrow> string \<Rightarrow> string \<times> ledger_entry list)
   \<Rightarrow> panel_inputs \<Rightarrow> 'r loader \<Rightarrow> begin_result option \<times> 'r loader" where
  "watch_panel_and_time fixedVariables applyAdhocVariables inp state =
    (let state = state\<lparr>isDirty := True\<rparr>
     in if isVisible state \<and> isDirty state \<and> length (queries inp) \<noteq> 0
           \<and> (case queries inp of [] \<Rightarrow> False | q # _ \<Rightarrow> q \<noteq> [])
        then map_prod Some id (loadData_begin fixedVariables applyAdhocVariables inp state)
        else (None, state))"

definition watch_isVisible ::
  "(int \<Rightarrow> int \<Rightarrow> (string \<times> string) list) \<Rightarrow> (string \<Rightarrow> string \<Rightarrow> string \<times> ledger_entry list)
   \<Rightarrow> panel_inputs \<Rightarrow> 'r loader \<Rightarrow> begin_result option \<times> 'r loader" where
  "watch_isVisible fixedVariables applyAdhocVariables inp state =
    (if isVisible state \<and> isDirty state \<and> length (queries inp) \<noteq> 0
        \<and> hasAtLeastOneQuery (queries inp)
     then map_prod Some id (loadData_begin fixedVariables applyAdhocVariables inp state)
     else (None, state))"

definition watch_variables ::
  "(int \<Rightarrow> int \<Rightarrow> (string \<times> string) list) \<Rightarrow> (string \<Rightarrow> string \<Rightarrow> string \<times> ledger_entry list)
   \<Rightarrow> bool \<Rightarrow> panel_inputs \<Rightarrow> 'r loader \<Rightarrow> begin_result option \<times> 'r loader" where
  "watch_variables fixedVariables applyAdhocVariables adHoc inp state =
    (if length (queries inp) = 0 then (None, state)
     else
       (let decision = shouldITriggerTheQueryForOtherVariables (values inp) (queries inp)
                         (currentDependentVariablesData state);
            state = state\<lparr>currentDependentVariablesData := snd decision\<rparr>
        in if fst decision \<or> adHoc
           then (let state = state\<lparr>isDirty := True\<rparr>
                 in if isVisible state
                    then map_prod Some id
                           (loadData_begin fixedVariables applyAdhocVariables inp state)
                    else (None, state))
           else (None, state)))"

text \<open>\<^verbatim>\<open>handleIntersection\<close>, followed by the watcher of \<^verbatim>\<open>isVisible\<close> when the flag changed.\<close>

definition handleIntersection ::
  "(int \<Rightarrow> int \<Rightarrow> (string \<times> string) list) \<Rightarrow> (string \<Rightarrow> string \<Rightarrow> string \<times> ledger_entry list)
   \<Rightarrow> bool \<Rightarrow> panel_inputs \<Rightarrow> 'r loader \<Rightarrow> begin_result option \<times> 'r loader" where
  "handleIntersection fixedVariables applyAdhocVariables isIntersecting inp state =
    (if isVisible state = isIntersecting then (None, state)
     else watch_isVisible fixedVariables applyAdhocVariables inp
            (state\<lparr>isVisible := isIntersecting\<rparr>))"

text \<open>Whether a watcher dispatched calls to the execution service.\<close>

definition dispatches :: "begin_result option \<Rightarrow> bool" where
  "dispatches r = (case r of Some (Dispatched calls) \<Rightarrow> True | _ \<Rightarrow> False)"

subsection \<open>The specification's wording\<close>

text \<open>The outputs of the fixed table: those of the breakpoints, 30d and 1y.\<close>

definition spec_buckets :: "interval_spec list" where
  "spec_buckets =
    map snd spec_breakpoints @ [\<lparr>value = 30, unit = ''d''\<rparr>, \<lparr>value = 1, unit = ''y''\<rparr>]"


text \<open>A selected time range with a missing bound or an \<^verbatim>\<open>"Invalid Date"\<close> bound.\<close>

definition spec_time_not_ready :: "timestamps option \<Rightarrow> bool" where
  "spec_time_not_ready ts =
    (case ts of
       None \<Rightarrow> True
     | Some t \<Rightarrow> start_time t = None \<or> end_time t = None
                 \<or> start_time t = Some InvalidDate \<or> end_time t = Some InvalidDate)"

text \<open>
  Replacing every occurrence of a token by a text as it stands, scanning from the left.
\<close>

fun spec_replace_every :: "string \<Rightarrow> string \<Rightarrow> string \<Rightarrow> string" where
  "spec_replace_every token text [] = []"
| "spec_replace_every token text (c # cs) =
     (if token \<noteq> [] \<and> prefix token (c # cs)
      then text @ spec_replace_every token text (drop (length token) (c # cs))
      else c # spec_replace_every token text cs)"

subsection \<open>Example inputs\<close>

text \<open>The state of a loader as \<^verbatim>\<open>usePanelDataLoader\<close> creates it.\<close>

definition initial_loader :: "nat list loader" where
  "initial_loader =
    \<lparr>data = [], loading = False, errorDetail = [], metadata = None, isDirty = True,
     isVisible = False, currentDependentVariablesData = []\<rparr>"

definition one_hour :: "timestamps option" where
  "one_hour = Some \<lparr>start_time = Some (ValidDate 0), end_time = Some (ValidDate 3600000)\<rparr>"

text \<open>
  The fixed variables for a range of one hour on a panel 1000 pixels wide with the default
  scrape interval: the bucket is 1ms (\<open>hour_fixedVariables_values\<close>).
\<close>

definition hour_fixedVariables :: "int \<Rightarrow> int \<Rightarrow> (string \<times> string) list" where
  "hour_fixedVariables startISOTimestamp endISOTimestamp =
    [(''__interval_ms'', ''1ms''), (''__interval'', ''1ms''), (''__rate_interval'', ''1m'')]"

text \<open>
  \<^verbatim>\<open>applyAdhocVariables\<close> when no ad-hoc filter is set: its early return, with the query as
  it is and an empty ledger.
\<close>

definition no_adhoc :: "string \<Rightarrow> string \<Rightarrow> string \<times> ledger_entry list" where
  "no_adhoc query qt = (query, [])"

text \<open>A panel with two sub-queries, of which the first call resolves and the second rejects.\<close>

definition two_queries :: panel_inputs where
  "two_queries =
    \<lparr>queries = [''up'', ''down''], queryType = ''promql'', selectedTimeObj = one_hour,
     values = []\<rparr>"

definition boom :: api_error where
  "boom = \<lparr>response_error = None, response_error_detail = None, response_message = None,
           message = Some ''boom''\<rparr>"

definition second_rejects :: "nat \<Rightarrow> nat list settled" where
  "second_rejects i = (if i = 0 then Resolved [1, 2, 3] else Rejected boom)"

definition first_rejects :: "nat \<Rightarrow> nat list settled" where
  "first_rejects i = (if i = 0 then Rejected boom else Resolved [1, 2, 3])"

text \<open>A panel on the variable \<^verbatim>\<open>region\<close>, and that variable in several states.\<close>

definition region :: "string \<Rightarrow> bool \<Rightarrow> variable" where
  "region v l = \<lparr>name = ''region'', vtype = ''custom'', var_value = v, isLoading = l\<rparr>"

definition region_query :: string where
  "region_query = ''SELECT * FROM t WHERE r=$region''"

definition region_panel :: "variable \<Rightarrow> timestamps option \<Rightarrow> panel_inputs" where
  "region_panel v ts =
    \<lparr>queries = [region_query], queryType = ''sql'', selectedTimeObj = ts, values = [v]\<rparr>"

definition invalid_start :: "timestamps option" where
  "invalid_start = Some \<lparr>start_time = Some InvalidDate, end_time = Some (ValidDate 3600000)\<rparr>"

text \<open>A panel whose list of sub-queries is empty, with a start time that is invalid.\<close>

definition no_queries :: panel_inputs where
  "no_queries =
    \<lparr>queries = [], queryType = ''sql'', selectedTimeObj = invalid_start, values = []\<rparr>"

text \<open>An ad-hoc filter that is loading, under the name the query refers to.\<close>

definition adhoc_loading :: variable where
  "adhoc_loading =
    \<lparr>name = ''region'', vtype = ''ad-hoc-filters'', var_value = [], isLoading = True\<rparr>"

section \<open>Properties\<close>

subsection \<open>The interval, the rate window and its rendering\<close>

lemma formatInterval_spec_bucket: "formatInterval x = spec_bucket x"
  by (cases x) (simp_all add: formatInterval_def spec_bucket_def spec_breakpoints_def)

lemma find_Some_mem: "find P xs = Some y \<Longrightarrow> y \<in> set xs"
  by (induction xs) (auto split: if_splits)

lemma spec_bucket_in_buckets: "spec_bucket x \<in> set spec_buckets"
proof (cases "find (\<lambda>bp. jsle x (fst bp)) spec_breakpoints")
  case None
  then show ?thesis by (simp add: spec_bucket_def spec_buckets_def)
next
  case (Some bp)
  then have "bp \<in> set spec_breakpoints" by (rule find_Some_mem)
  then have "snd bp \<in> set (map snd spec_breakpoints)" by simp
  with Some show ?thesis by (simp add: spec_bucket_def spec_buckets_def)
qed

lemma formatInterval_in_buckets: "formatInterval x \<in> set spec_buckets"
  by (simp add: formatInterval_spec_bucket spec_bucket_in_buckets)

lemma bucket_units: "list_all (\<lambda>b. unit b \<in> set (map fst spec_unit_to_seconds)) spec_buckets"
  by (simp add: spec_buckets_def spec_breakpoints_def spec_unit_to_seconds_def)

lemma bucket_unit_in_table:
  assumes "b \<in> set spec_buckets"
  shows "\<exists>f. map_of spec_unit_to_seconds (unit b) = Some f"
proof -
  from bucket_units assms have "unit b \<in> set (map fst spec_unit_to_seconds)"
    unfolding list_all_iff by blast
  then have "map_of spec_unit_to_seconds (unit b) \<noteq> None"
    by (simp only: map_of_eq_None_iff set_map not_not)
  then show ?thesis by blast
qed

lemma getTimeInSecondsBasedOnUnit_table:
  "map_of spec_unit_to_seconds u = Some f \<Longrightarrow> getTimeInSecondsBasedOnUnit v u = v * f"
  unfolding spec_unit_to_seconds_def getTimeInSecondsBasedOnUnit_def
  by (simp split: if_split_asm)

text \<open>
  Claim C2. For every raw interval, NaN and the infinities included, \<^verbatim>\<open>formatInterval\<close>
  returns the pair of the first breakpoint of the table whose upper bound is at least the
  interval, 30d when no breakpoint matches and the interval is below 3628800000, and 1y
  otherwise. At the boundaries: 1500 gives 1s and 1500.001 gives 2s; 172800000 and
  604800000 both give 24h; 3628799999.999 gives 30d and 3628800000 gives 1y.
\<close>

theorem formatInterval_table:
  "formatInterval x = spec_bucket x
   \<and> formatInterval (Fin 1500) = \<lparr>value = 1, unit = ''s''\<rparr>
   \<and> formatInterval (Fin (1500 + 1 / 1000)) = \<lparr>value = 2, unit = ''s''\<rparr>
   \<and> formatInterval (Fin 172800000) = \<lparr>value = 24, unit = ''h''\<rparr>
   \<and> formatInterval (Fin 604800000) = \<lparr>value = 24, unit = ''h''\<rparr>
   \<and> formatInterval (Fin (3628800000 - 1 / 1000)) = \<lparr>value = 30, unit = ''d''\<rparr>
   \<and> formatInterval (Fin 3628800000) = \<lparr>value = 1, unit = ''y''\<rparr>
   \<and> formatInterval PInf = \<lparr>value = 1, unit = ''y''\<rparr>
   \<and> formatInterval NaN = \<lparr>value = 1, unit = ''y''\<rparr>"
proof -
  have "formatInterval x = spec_bucket x"
    by (rule formatInterval_spec_bucket)
  moreover have "formatInterval (Fin 1500) = \<lparr>value = 1, unit = ''s''\<rparr>
   \<and> formatInterval (Fin (1500 + 1 / 1000)) = \<lparr>value = 2, unit = ''s''\<rparr>
   \<and> formatInterval (Fin 172800000) = \<lparr>value = 24, unit = ''h''\<rparr>
   \<and> formatInterval (Fin 604800000) = \<lparr>value = 24, unit = ''h''\<rparr>
   \<and> formatInterval (Fin (3628800000 - 1 / 1000)) = \<lparr>value = 30, unit = ''d''\<rparr>
   \<and> formatInterval (Fin 3628800000) = \<lparr>value = 1, unit = ''y''\<rparr>
   \<and> formatInterval PInf = \<lparr>value = 1, unit = ''y''\<rparr>
   \<and> formatInterval NaN = \<lparr>value = 1, unit = ''y''\<rparr>"
    by (simp add: formatInterval_def)
  ultimately show ?thesis by blast
qed

text \<open>
  Claim C5. The scrape interval is 15 when the setting is unset; the unit of every bucket
  that \<^verbatim>\<open>formatInterval\<close> returns is in the conversion table, and the rate window is
  the maximum of the bucket's seconds plus the scrape interval and four scrape intervals;
  \<^verbatim>\<open>getTimeInSecondsBasedOnUnit\<close> multiplies by 1/1000, 1, 60, 3600, 86400, 604800 and
  7257600 for ms, s, m, h, d, w and y.
\<close>

theorem rate_interval_window:
  "scrapeInterval None = 15 \<and> scrapeInterval (Some v) = v
   \<and> (\<exists>bucket. spec_bucketSeconds (formattedInterval s e w) = Some bucket
         \<and> rate_interval scrape s e w = spec_rateWindowSeconds bucket (scrapeInterval scrape))
   \<and> getTimeInSecondsBasedOnUnit x ''ms'' = x / 1000
   \<and> getTimeInSecondsBasedOnUnit x ''s'' = x
   \<and> getTimeInSecondsBasedOnUnit x ''m'' = x * 60
   \<and> getTimeInSecondsBasedOnUnit x ''h'' = x * 3600
   \<and> getTimeInSecondsBasedOnUnit x ''d'' = x * 86400
   \<and> getTimeInSecondsBasedOnUnit x ''w'' = x * 604800
   \<and> getTimeInSecondsBasedOnUnit x ''y'' = x * 7257600"
proof -
  let ?fi = "formattedInterval s e w"
  have "?fi \<in> set spec_buckets"
    by (simp add: formattedInterval_def formatInterval_in_buckets)
  then obtain f where f: "map_of spec_unit_to_seconds (unit ?fi) = Some f"
    using bucket_unit_in_table by blast
  have "getTimeInSecondsBasedOnUnit (of_nat (value ?fi)) (unit ?fi) = of_nat (value ?fi) * f"
    using f by (rule getTimeInSecondsBasedOnUnit_table)
  then have "spec_bucketSeconds ?fi = Some (of_nat (value ?fi) * f)
      \<and> rate_interval scrape s e w
          = spec_rateWindowSeconds (of_nat (value ?fi) * f) (scrapeInterval scrape)"
    using f by (simp add: spec_bucketSeconds_def rate_interval_def spec_rateWindowSeconds_def Let_def)
  then have "\<exists>bucket. spec_bucketSeconds ?fi = Some bucket
         \<and> rate_interval scrape s e w = spec_rateWindowSeconds bucket (scrapeInterval scrape)"
    by blast
  moreover have "scrapeInterval None = 15 \<and> scrapeInterval (Some v) = v"
    by (simp add: scrapeInterval_def)
  moreover have "getTimeInSecondsBasedOnUnit x ''ms'' = x / 1000
   \<and> getTimeInSecondsBasedOnUnit x ''s'' = x
   \<and> getTimeInSecondsBasedOnUnit x ''m'' = x * 60
   \<and> getTimeInSecondsBasedOnUnit x ''h'' = x * 3600
   \<and> getTimeInSecondsBasedOnUnit x ''d'' = x * 86400
   \<and> getTimeInSecondsBasedOnUnit x ''w'' = x * 604800
   \<and> getTimeInSecondsBasedOnUnit x ''y'' = x * 7257600"
    by (simp add: getTimeInSecondsBasedOnUnit_def)
  ultimately show ?thesis by blast
qed

text \<open>The digits of \<open>toString\<close> read back as a decimal numeral give the number.\<close>

lemma of_char_digit: "n < 10 \<Longrightarrow> of_char (digit n) = (48 + n :: nat)"
proof -
  assume "n < 10"
  then have "n \<in> {0, 1, 2, 3, 4, 5, 6, 7, 8, 9}" by auto
  then show ?thesis by (auto simp: digit_def)
qed

lemma toString_decimal:
  "foldl (\<lambda>a c. 10 * a + (of_char c - 48)) 0 (toString n) = n"
proof (induction n rule: toString.induct)
  case (1 n)
  show ?case
  proof (cases "n < 10")
    case True
    then show ?thesis by (subst toString.simps) (simp add: of_char_digit)
  next
    case False
    with 1 show ?thesis
      by (subst toString.simps) (simp add: of_char_digit)
  qed
qed

lemma split_seconds:
  fixes d h m s :: nat
  assumes "h < 24" "m < 60" "s < 60"
  shows "(d * 86400 + h * 3600 + m * 60 + s) div (3600 * 24) = d"
    and "((d * 86400 + h * 3600 + m * 60 + s) mod (3600 * 24)) div 3600 = h"
    and "((d * 86400 + h * 3600 + m * 60 + s) mod 3600) div 60 = m"
    and "(d * 86400 + h * 3600 + m * 60 + s) mod 60 = s"
proof -
  let ?n = "d * 86400 + h * 3600 + m * 60 + s"
  have ms: "m * 60 + s < 3600" using assms by simp
  have hms: "h * 3600 + (m * 60 + s) < 86400" using assms by simp
  have n1: "?n = d * 86400 + (h * 3600 + (m * 60 + s))" by simp
  have n2: "?n = (d * 24 + h) * 3600 + (m * 60 + s)" by simp
  have n3: "?n = (d * 1440 + h * 60 + m) * 60 + s" by simp
  show "?n div (3600 * 24) = d" using hms by (simp add: n1)
  have "?n mod (3600 * 24) = h * 3600 + (m * 60 + s)" using hms by (simp add: n1)
  then show "(?n mod (3600 * 24)) div 3600 = h" using ms by simp
  have "?n mod 3600 = (m * 60 + s) mod 3600"
    by (subst n2) (rule mod_mult_self3)
  then have "?n mod 3600 = m * 60 + s" using ms by simp
  then show "(?n mod 3600) div 60 = m" using assms by simp
  have "?n mod 60 = s mod 60"
    by (subst n3) (rule mod_mult_self3)
  then show "?n mod 60 = s" using assms by simp
qed

text \<open>
  Claim C9. On a number of seconds made of \<open>d\<close> days, \<open>h\<close> hours, \<open>m\<close> minutes and \<open>s\<close>
  seconds, \<^verbatim>\<open>formateRateInterval\<close> renders the components that are not zero, in this
  order, each followed by its letter, with nothing between them; 90 gives 1m30s, 0 gives
  the empty string and 3661 gives 1h1m1s.
\<close>

theorem formateRateInterval_components:
  "(h < 24 \<and> m < 60 \<and> s < 60 \<longrightarrow>
      formateRateInterval (d * 86400 + h * 3600 + m * 60 + s)
        = spec_component d ''d'' @ spec_component h ''h'' @ spec_component m ''m''
            @ spec_component s ''s'')
   \<and> formateRateInterval 90 = ''1m30s''
   \<and> formateRateInterval 0 = ''''
   \<and> formateRateInterval 3661 = ''1h1m1s''"
proof -
  have general: "formateRateInterval (d * 86400 + h * 3600 + m * 60 + s)
        = spec_component d ''d'' @ spec_component h ''h'' @ spec_component m ''m''
            @ spec_component s ''s''"
    if "h < 24" "m < 60" "s < 60"
    unfolding formateRateInterval_def Let_def split_seconds [OF that] spec_component_def
    by simp
  have examples: "formateRateInterval 90 = ''1m30s'' \<and> formateRateInterval 0 = ''''
      \<and> formateRateInterval 3661 = ''1h1m1s''"
    by (simp add: formateRateInterval_def toString.simps digit_def)
  from general examples show ?thesis by blast
qed

theorem formateRateInterval_components_witness:
  "(2::nat) < 24 \<and> (3::nat) < 60 \<and> (4::nat) < 60
   \<and> formateRateInterval 93784 = ''1d2h3m4s''"
  using formateRateInterval_components [of 2 3 4 1]
  by (simp add: spec_component_def toString.simps digit_def)


lemma hour_fixedVariables_values:
  "formattedInterval 0 3600000 (Some 1000) = \<lparr>value = 1, unit = ''ms''\<rparr>
   \<and> interval_ms 0 3600000 (Some 1000) = 1
   \<and> rate_interval None 0 3600000 (Some 1000) = 60
   \<and> hour_fixedVariables 0 3600000 =
        [(''__interval_ms'', toString 1 @ ''ms''), (''__interval'', toString 1 @ ''ms''),
         (''__rate_interval'', formateRateInterval 60)]"
proof -
  have "interval 0 3600000 (Some 1000) = Fin (18 / 5)"
    by (simp add: interval_def)
  then have fi: "formattedInterval 0 3600000 (Some 1000) = \<lparr>value = 1, unit = ''ms''\<rparr>"
    by (simp add: formattedInterval_def formatInterval_def)
  then show ?thesis
    by (simp add: interval_ms_def rate_interval_def getTimeInSecondsBasedOnUnit_def
          scrapeInterval_def hour_fixedVariables_def formateRateInterval_def toString.simps
          digit_def)
qed

subsection \<open>Strings and substitution\<close>

lemma str_includes_region: "str_includes region_query ''$region''"
  by (simp add: region_query_def)

lemma replaceAll_from_absent:
  "\<not> str_includes s token \<Longrightarrow> replaceAll_from token v p s = s"
proof (induction s arbitrary: p)
  case Nil
  then show ?case by (simp add: replaceAll_from.simps)
next
  case (Cons c cs)
  then show ?case by (subst replaceAll_from.simps) simp
qed

lemma GetSubstitution_literal:
  "CHR ''$'' \<notin> set v \<Longrightarrow> GetSubstitution m p a v = v"
  by (induction m p a v rule: GetSubstitution.induct) auto

lemma replaceAll_from_literal:
  "CHR ''$'' \<notin> set v \<Longrightarrow> token \<noteq> [] \<Longrightarrow>
     replaceAll_from token v p s = spec_replace_every token v s"
proof (induction token v s arbitrary: p rule: spec_replace_every.induct)
  case (1 token v)
  then show ?case by (simp add: replaceAll_from.simps)
next
  case (2 token v c cs)
  show ?case
  proof (cases "prefix token (c # cs)")
    case True
    with 2 show ?thesis
      by (subst replaceAll_from.simps) (simp add: GetSubstitution_literal)
  next
    case False
    with 2 show ?thesis
      by (subst replaceAll_from.simps) simp
  qed
qed

lemma substitute_absent:
  "\<not> str_includes q (CHR ''$'' # n) \<Longrightarrow> substitute ty (n, v) (q, md) = (q, md)"
  by (simp add: substitute_def replaceAll_def replaceAll_from_absent)

lemma substitute_ledger:
  "snd (substitute ty (n, v) (q, md)) =
     (if str_includes q (CHR ''$'' # n)
      then md @ [\<lparr>entry_type = ty, entry_name = n, entry_value = v, entry_operator = None\<rparr>]
      else md)"
  by (simp add: substitute_def)

lemma substitute_literal:
  "CHR ''$'' \<notin> set v \<Longrightarrow>
     fst (substitute ty (n, v) (q, md)) = spec_replace_every (CHR ''$'' # n) v q"
  by (simp add: substitute_def Let_def replaceAll_def replaceAll_from_literal)

lemma substitute_region:
  "substitute ''variable'' (''region'', ''us-east'') (region_query, []) =
    (''SELECT * FROM t WHERE r=us-east'',
     [\<lparr>entry_type = ''variable'', entry_name = ''region'', entry_value = ''us-east'',
       entry_operator = None\<rparr>])"
  by (simp add: substitute_def Let_def replaceAll_def replaceAll_from.simps region_query_def)

text \<open>
  Claim C6 holds for a value without a dollar sign (\<open>substitute_ledger\<close>,
  \<open>substitute_absent\<close>, \<open>substitute_literal\<close>), and not for every value: the value is
  the replacement template of \<^verbatim>\<open>replaceAll\<close>. On the query \<^verbatim>\<open>r=$region\<close> and the value
  \<^verbatim>\<open>a$$b\<close> the step writes \<^verbatim>\<open>a$b\<close> into the query, while its ledger entry records the
  value \<^verbatim>\<open>a$$b\<close>.
\<close>
theorem substitute_dollar_pattern:
  "substitute ''variable'' (''region'', ''a$$b'') (''r=$region'', []) =
    (''r=a$b'',
     [\<lparr>entry_type = ''variable'', entry_name = ''region'', entry_value = ''a$$b'',
       entry_operator = None\<rparr>])"
proof -
  have "replaceAll ''r=$region'' ''$region'' ''a$$b'' = ''r=a$b''"
    by (simp add: replaceAll_def replaceAll_from.simps)
  moreover have "str_includes ''r=$region'' ''$region''"
    by simp
  ultimately show ?thesis
    by (simp add: substitute_def)
qed

subsection \<open>The raw interval\<close>










subsection \<open>The change detection\<close>

lemma dependentVariables_region:
  "dependentVariables [region v l] [region_query] = [region v l]"
  using str_includes_region by (simp add: dependentVariables_def region_def)

text \<open>
  Claim C3 as the specification words it fails. The variable \<^verbatim>\<open>region\<close> is referenced by
  the query and is not an ad-hoc filter, its value in the snapshot is the empty string and
  its new value is \<^verbatim>\<open>us-east\<close>: the decision reports a change.
\<close>
theorem no_change_on_empty_previous_value_counterexample:
  "region ''us-east'' False \<in> set (dependentVariables [region ''us-east'' False] [region_query])
   \<and> find (\<lambda>it2. name it2 = name (region ''us-east'' False)) [region [] False]
        = Some (region [] False)
   \<and> var_value (region [] False) = []
   \<and> fst (shouldITriggerTheQueryForOtherVariables [region ''us-east'' False] [region_query]
             [region [] False])"
proof -
  have "fst (shouldITriggerTheQueryForOtherVariables [region ''us-east'' False] [region_query]
             [region [] False])"
    by (simp add: shouldITriggerTheQueryForOtherVariables_def dependentVariables_region)
       (simp add: region_def)
  then show ?thesis
    by (simp add: dependentVariables_region) (simp add: region_def)
qed

text \<open>
  Claim C3, amended. For every dependent (non-ad-hoc, referenced in a query) variable
  whose value in the previous snapshot is the empty string, the decision on the bound
  variables reports a change and replaces the snapshot by the new dependent variables,
  whether or not the new value of the variable differs from the old one.
\<close>
theorem change_on_empty_previous_value:
  assumes "it \<in> set (dependentVariables vs qs)"
    and "find (\<lambda>it2. name it2 = name it) cur = Some old"
    and "var_value old = []"
  shows "shouldITriggerTheQueryForOtherVariables vs qs cur = (True, dependentVariables vs qs)"
proof -
  let ?same = "\<lambda>it. let oldValue = find (\<lambda>it2. name it2 = name it) cur
                    in Some (var_value it) = map_option var_value oldValue
                       \<and> map_option var_value oldValue \<noteq> Some []"
  have "\<not> ?same it"
    using assms(2,3) by simp
  with assms(1) have "\<not> list_all ?same (dependentVariables vs qs)"
    unfolding list_all_iff by blast
  moreover have "length (dependentVariables vs qs) \<noteq> 0"
    using assms(1) by auto
  ultimately show ?thesis
    unfolding shouldITriggerTheQueryForOtherVariables_def Let_def by simp
qed

theorem change_on_empty_previous_value_witness:
  "region [] False \<in> set (dependentVariables [region [] False] [region_query])
   \<and> find (\<lambda>it2. name it2 = name (region [] False)) [region [] False] = Some (region [] False)
   \<and> var_value (region [] False) = []
   \<and> shouldITriggerTheQueryForOtherVariables [region [] False] [region_query] [region [] False]
       = (True, [region [] False])"
proof -
  have 1: "region [] False \<in> set (dependentVariables [region [] False] [region_query])"
    by (simp add: dependentVariables_region)
  have 2: "find (\<lambda>it2. name it2 = name (region [] False)) [region [] False]
             = Some (region [] False)"
    by simp
  have 3: "var_value (region [] False) = []"
    by (simp add: region_def)
  from change_on_empty_previous_value [OF 1 2 3] 1 2 3 show ?thesis
    by (simp add: dependentVariables_region)
qed

subsection \<open>The dependency gate\<close>

lemma length_filter_all: "(length (filter Q xs) = length xs) = (\<forall>x\<in>set xs. Q x)"
proof (induction xs)
  case Nil
  then show ?case by simp
next
  case (Cons a xs)
  have "length (filter Q xs) \<le> length xs" by (rule length_filter_le)
  then have "length (filter Q xs) \<noteq> Suc (length xs)" by linarith
  with Cons show ?case by auto
qed

lemma set_dependentVariables:
  "v \<in> set (dependentVariables vs qs) \<longleftrightarrow>
     v \<in> set vs \<and> vtype v \<noteq> ''ad-hoc-filters''
       \<and> (\<exists>q\<in>set qs. str_includes q (CHR ''$'' # name v))"
  by (auto simp: dependentVariables_def)

lemma gate_iff:
  "(isQueryDependentOnTheVariables vs qs \<and> \<not> canRunQueryBasedOnVariables vs qs)
     = loading_dependency vs qs"
proof -
  define dv where "dv = dependentVariables vs qs"
  have "(isQueryDependentOnTheVariables vs qs \<and> \<not> canRunQueryBasedOnVariables vs qs)
     = (0 < length dv \<and> length (filter (\<lambda>it. \<not> isLoading it) dv) \<noteq> length dv)"
    by (simp add: isQueryDependentOnTheVariables_def canRunQueryBasedOnVariables_def Let_def dv_def)
  also have "\<dots> = (\<exists>v\<in>set dv. isLoading v)"
    by (auto simp: length_filter_all)
  also have "\<dots> = loading_dependency vs qs"
    unfolding dv_def loading_dependency_def list_ex_iff
    using set_dependentVariables by blast
  finally show ?thesis .
qed

lemma loadData_begin_blocked:
  assumes "loading_dependency (values inp) (queries inp)"
  shows "loadData_begin fv ah inp st = (Returned, st\<lparr>isDirty := False\<rparr>)"
  using assms gate_iff [of "values inp" "queries inp"]
  by (simp add: loadData_begin_def Let_def)

lemma loadData_begin_not_blocked:
  assumes "\<not> loading_dependency (values inp) (queries inp)"
    and "queries inp \<noteq> []"
    and "resolve_timestamps (selectedTimeObj inp) = Some (Inr (s, e))"
  shows "loadData_begin fv ah inp st =
           (Dispatched (map (dispatch fv ah inp (currentDependentVariablesData st) s e)
                          (queries inp)),
            st\<lparr>isDirty := False, loading := True\<rparr>)"
  using assms gate_iff [of "values inp" "queries inp"]
  by (simp add: loadData_begin_def Let_def)

lemma watchers_blocked:
  assumes "loading_dependency (values inp) (queries inp)"
  shows "\<not> dispatches (fst (watch_panel_and_time fv ah inp st))"
    and "loading (snd (watch_panel_and_time fv ah inp st)) = loading st"
    and "\<not> dispatches (fst (watch_isVisible fv ah inp st))"
    and "loading (snd (watch_isVisible fv ah inp st)) = loading st"
    and "\<not> dispatches (fst (watch_variables fv ah adHoc inp st))"
    and "loading (snd (watch_variables fv ah adHoc inp st)) = loading st"
    and "\<not> dispatches (fst (handleIntersection fv ah b inp st))"
    and "loading (snd (handleIntersection fv ah b inp st)) = loading st"
  using assms
  by (simp_all add: watch_panel_and_time_def watch_isVisible_def watch_variables_def
        handleIntersection_def loadData_begin_blocked dispatches_def Let_def)

lemma loading_dependency_region:
  "loading_dependency [region v True] [region_query]"
  using str_includes_region by (simp add: loading_dependency_def region_def)

lemma resolve_one_hour: "resolve_timestamps one_hour = Some (Inr (0, 3600000))"
  by (simp add: resolve_timestamps_def one_hour_def)

text \<open>
  Claim C7. When a variable that is not an ad-hoc filter, whose token occurs in one of
  the sub-queries, is loading, \<^verbatim>\<open>loadData\<close> returns with the state unchanged but for the
  cleared dirty flag, and no watcher dispatches a call or changes \<^verbatim>\<open>loading\<close>. Ad-hoc
  filters are outside the gate: when every loading variable is an ad-hoc filter, a panel
  with a query and a valid time range dispatches its calls and sets \<^verbatim>\<open>loading\<close>.
\<close>
theorem never_fetch_while_loading:
  "(loading_dependency (values inp) (queries inp) \<longrightarrow>
      loadData_begin fv ah inp st = (Returned, st\<lparr>isDirty := False\<rparr>)
      \<and> loadData fv ah inp outcome order st = (Inr (), st\<lparr>isDirty := False\<rparr>)
      \<and> \<not> dispatches (fst (watch_panel_and_time fv ah inp st))
      \<and> loading (snd (watch_panel_and_time fv ah inp st)) = loading st
      \<and> \<not> dispatches (fst (watch_isVisible fv ah inp st))
      \<and> loading (snd (watch_isVisible fv ah inp st)) = loading st
      \<and> \<not> dispatches (fst (watch_variables fv ah adHoc inp st))
      \<and> loading (snd (watch_variables fv ah adHoc inp st)) = loading st
      \<and> \<not> dispatches (fst (handleIntersection fv ah b inp st))
      \<and> loading (snd (handleIntersection fv ah b inp st)) = loading st)
   \<and> (list_all (\<lambda>v. isLoading v \<longrightarrow> vtype v = ''ad-hoc-filters'') (values inp)
        \<and> queries inp \<noteq> [] \<and> resolve_timestamps (selectedTimeObj inp) = Some (Inr (s, e)) \<longrightarrow>
        dispatches (Some (fst (loadData_begin fv ah inp st)))
        \<and> loading (snd (loadData_begin fv ah inp st)))"
proof -
  have blocked: "loadData fv ah inp outcome order st = (Inr (), st\<lparr>isDirty := False\<rparr>)"
    if "loading_dependency (values inp) (queries inp)"
    using that by (simp add: loadData_def loadData_begin_blocked)
  have adhoc: "\<not> loading_dependency (values inp) (queries inp)"
    if "list_all (\<lambda>v. isLoading v \<longrightarrow> vtype v = ''ad-hoc-filters'') (values inp)"
    using that unfolding loading_dependency_def list_all_iff list_ex_iff by blast
  have free: "dispatches (Some (fst (loadData_begin fv ah inp st)))
        \<and> loading (snd (loadData_begin fv ah inp st))"
    if "\<not> loading_dependency (values inp) (queries inp)" "queries inp \<noteq> []"
      "resolve_timestamps (selectedTimeObj inp) = Some (Inr (s, e))"
    using loadData_begin_not_blocked [OF that, of fv ah st] by (simp add: dispatches_def)
  have first: "loading_dependency (values inp) (queries inp) \<longrightarrow>
      loadData_begin fv ah inp st = (Returned, st\<lparr>isDirty := False\<rparr>)
      \<and> loadData fv ah inp outcome order st = (Inr (), st\<lparr>isDirty := False\<rparr>)
      \<and> \<not> dispatches (fst (watch_panel_and_time fv ah inp st))
      \<and> loading (snd (watch_panel_and_time fv ah inp st)) = loading st
      \<and> \<not> dispatches (fst (watch_isVisible fv ah inp st))
      \<and> loading (snd (watch_isVisible fv ah inp st)) = loading st
      \<and> \<not> dispatches (fst (watch_variables fv ah adHoc inp st))
      \<and> loading (snd (watch_variables fv ah adHoc inp st)) = loading st
      \<and> \<not> dispatches (fst (handleIntersection fv ah b inp st))
      \<and> loading (snd (handleIntersection fv ah b inp st)) = loading st"
  proof
    assume a: "loading_dependency (values inp) (queries inp)"
    show "loadData_begin fv ah inp st = (Returned, st\<lparr>isDirty := False\<rparr>)
      \<and> loadData fv ah inp outcome order st = (Inr (), st\<lparr>isDirty := False\<rparr>)
      \<and> \<not> dispatches (fst (watch_panel_and_time fv ah inp st))
      \<and> loading (snd (watch_panel_and_time fv ah inp st)) = loading st
      \<and> \<not> dispatches (fst (watch_isVisible fv ah inp st))
      \<and> loading (snd (watch_isVisible fv ah inp st)) = loading st
      \<and> \<not> dispatches (fst (watch_variables fv ah adHoc inp st))
      \<and> loading (snd (watch_variables fv ah adHoc inp st)) = loading st
      \<and> \<not> dispatches (fst (handleIntersection fv ah b inp st))
      \<and> loading (snd (handleIntersection fv ah b inp st)) = loading st"
      by (simp only: blocked [OF a] loadData_begin_blocked [OF a] watchers_blocked [OF a]
            simp_thms)
  qed
  have second: "list_all (\<lambda>v. isLoading v \<longrightarrow> vtype v = ''ad-hoc-filters'') (values inp)
        \<and> queries inp \<noteq> [] \<and> resolve_timestamps (selectedTimeObj inp) = Some (Inr (s, e)) \<longrightarrow>
        dispatches (Some (fst (loadData_begin fv ah inp st)))
        \<and> loading (snd (loadData_begin fv ah inp st))"
    using adhoc free by blast
  from first second show ?thesis ..
qed


theorem never_fetch_while_loading_witness:
  "loading_dependency (values (region_panel (region ''us-east'' True) one_hour))
       (queries (region_panel (region ''us-east'' True) one_hour))
   \<and> loadData_begin hour_fixedVariables no_adhoc (region_panel (region ''us-east'' True) one_hour)
         initial_loader = (Returned, initial_loader\<lparr>isDirty := False\<rparr>)
   \<and> \<not> dispatches (fst (handleIntersection hour_fixedVariables no_adhoc True
                          (region_panel (region ''us-east'' True) one_hour) initial_loader))
   \<and> list_all (\<lambda>v. isLoading v \<longrightarrow> vtype v = ''ad-hoc-filters'')
         (values (region_panel adhoc_loading one_hour))
   \<and> queries (region_panel adhoc_loading one_hour) \<noteq> []
   \<and> resolve_timestamps (selectedTimeObj (region_panel adhoc_loading one_hour))
         = Some (Inr (0, 3600000))
   \<and> dispatches (Some (fst (loadData_begin hour_fixedVariables no_adhoc
                               (region_panel adhoc_loading one_hour) initial_loader)))
   \<and> loading (snd (loadData_begin hour_fixedVariables no_adhoc
                       (region_panel adhoc_loading one_hour) initial_loader))"
proof -
  have 1: "loading_dependency (values (region_panel (region ''us-east'' True) one_hour))
       (queries (region_panel (region ''us-east'' True) one_hour))"
    by (simp add: region_panel_def loading_dependency_region)
  have 2: "list_all (\<lambda>v. isLoading v \<longrightarrow> vtype v = ''ad-hoc-filters'')
         (values (region_panel adhoc_loading one_hour))"
    "queries (region_panel adhoc_loading one_hour) \<noteq> []"
    "resolve_timestamps (selectedTimeObj (region_panel adhoc_loading one_hour))
         = Some (Inr (0, 3600000))"
    by (simp_all add: region_panel_def adhoc_loading_def resolve_one_hour)
  show ?thesis
    using 1 2
      never_fetch_while_loading [where inp = "region_panel (region ''us-east'' True) one_hour"
         and fv = hour_fixedVariables and ah = no_adhoc and st = initial_loader and b = True]
      never_fetch_while_loading [where inp = "region_panel adhoc_loading one_hour"
         and s = 0 and e = 3600000
         and fv = hour_fixedVariables and ah = no_adhoc and st = initial_loader]
    by simp
qed

subsection \<open>The time range\<close>

lemma resolve_not_ready:
  "spec_time_not_ready ts \<longleftrightarrow> resolve_timestamps ts = None"
  by (auto simp: spec_time_not_ready_def resolve_timestamps_def split: option.splits)

lemma loadData_begin_not_ready:
  assumes "spec_time_not_ready (selectedTimeObj inp)"
  shows "snd (loadData_begin fv ah inp st) = st\<lparr>isDirty := False\<rparr>"
    and "queries inp \<noteq> [] \<Longrightarrow> fst (loadData_begin fv ah inp st) = Returned"
  using assms by (simp_all add: loadData_begin_def Let_def resolve_not_ready)

text \<open>
  What holds of every attempt on a time range with a missing bound or an invalid date as
  a bound: it leaves \<^verbatim>\<open>data\<close>, \<^verbatim>\<open>loading\<close>, \<^verbatim>\<open>errorDetail\<close> and \<^verbatim>\<open>metadata\<close> as they were
  and the dirty flag cleared, and on a panel with at least one sub-query \<^verbatim>\<open>loadData\<close>
  returns, without an exception. With the dirty flag cleared a change of visibility
  starts no attempt: only the watchers of the inputs set the flag again.
\<close>

theorem not_ready_abort:
  "(spec_time_not_ready (selectedTimeObj inp) \<longrightarrow>
      snd (loadData fv ah inp outcome order st) = st\<lparr>isDirty := False\<rparr>
      \<and> (queries inp \<noteq> [] \<longrightarrow>
            loadData_begin fv ah inp st = (Returned, st\<lparr>isDirty := False\<rparr>)
            \<and> loadData fv ah inp outcome order st = (Inr (), st\<lparr>isDirty := False\<rparr>)))
   \<and> fst (handleIntersection fv ah b inp (st\<lparr>isDirty := False\<rparr>)) = None
   \<and> fst (watch_isVisible fv ah inp (st\<lparr>isDirty := False\<rparr>)) = None"
proof -
  have state: "snd (loadData fv ah inp outcome order st) = st\<lparr>isDirty := False\<rparr>"
    if "spec_time_not_ready (selectedTimeObj inp)"
  proof -
    obtain r st' where r: "loadData_begin fv ah inp st = (r, st')"
      by (cases "loadData_begin fv ah inp st")
    with loadData_begin_not_ready(1) [OF that, of fv ah st]
    have st': "st' = st\<lparr>isDirty := False\<rparr>" by simp
    have "r \<noteq> Dispatched calls" for calls
      using r that
      by (auto simp: loadData_begin_def Let_def resolve_not_ready split: if_splits)
    then show ?thesis
      using r st' by (cases r) (auto simp: loadData_def)
  qed
  have returns: "loadData_begin fv ah inp st = (Returned, st\<lparr>isDirty := False\<rparr>)
            \<and> loadData fv ah inp outcome order st = (Inr (), st\<lparr>isDirty := False\<rparr>)"
    if "spec_time_not_ready (selectedTimeObj inp)" "queries inp \<noteq> []"
  proof -
    have "loadData_begin fv ah inp st = (Returned, st\<lparr>isDirty := False\<rparr>)"
      using loadData_begin_not_ready [OF that(1), of fv ah st] that(2)
      by (simp add: prod_eq_iff)
    then show ?thesis by (simp add: loadData_def)
  qed
  have visible: "fst (handleIntersection fv ah b inp (st\<lparr>isDirty := False\<rparr>)) = None"
    "fst (watch_isVisible fv ah inp (st\<lparr>isDirty := False\<rparr>)) = None"
    by (simp_all add: handleIntersection_def watch_isVisible_def)
  from state returns visible show ?thesis by blast
qed

theorem not_ready_abort_witness:
  "spec_time_not_ready (selectedTimeObj (region_panel (region ''us-east'' False) invalid_start))
   \<and> queries (region_panel (region ''us-east'' False) invalid_start) \<noteq> []
   \<and> loadData hour_fixedVariables no_adhoc (region_panel (region ''us-east'' False) invalid_start)
        second_rejects [0] initial_loader = (Inr (), initial_loader\<lparr>isDirty := False\<rparr>)
   \<and> fst (handleIntersection hour_fixedVariables no_adhoc True
             (region_panel (region ''us-east'' False) invalid_start)
             (initial_loader\<lparr>isDirty := False\<rparr>)) = None"
proof -
  have 1: "spec_time_not_ready
             (selectedTimeObj (region_panel (region ''us-east'' False) invalid_start))"
    by (simp add: region_panel_def invalid_start_def spec_time_not_ready_def)
  have 2: "queries (region_panel (region ''us-east'' False) invalid_start) \<noteq> []"
    by (simp add: region_panel_def)
  show ?thesis
    using 1 2
      not_ready_abort [where inp = "region_panel (region ''us-east'' False) invalid_start"
        and fv = hour_fixedVariables and ah = no_adhoc and outcome = second_rejects
        and order = "[0]" and st = initial_loader and b = True]
    by simp
qed

text \<open>
  Claim C8 fails on the code when the list of sub-queries is empty. \<^verbatim>\<open>loadData\<close> reads
  \<^verbatim>\<open>panelSchema.value.queries[0].query\<close> into a constant it never uses, before it tests
  the time range; the later read of \<^verbatim>\<open>queries[0]?.fields\<close> and the watchers guard the same
  access. On a panel without sub-queries whose start time is invalid the attempt does not
  return: it ends with a TypeError, the state unchanged but for the cleared dirty flag.
\<close>

theorem loadData_not_ready_empty_queries:
  "spec_time_not_ready (selectedTimeObj no_queries)
   \<and> loadData_begin hour_fixedVariables no_adhoc no_queries initial_loader
       = (Threw TypeError,
          \<lparr>data = [], loading = False, errorDetail = [], metadata = None,
           isDirty = False, isVisible = False, currentDependentVariablesData = []\<rparr>)
   \<and> loadData hour_fixedVariables no_adhoc no_queries second_rejects [] initial_loader
       = (Inl TypeError,
          \<lparr>data = [], loading = False, errorDetail = [], metadata = None,
           isDirty = False, isVisible = False, currentDependentVariablesData = []\<rparr>)"
proof -
  have not_ready: "spec_time_not_ready (selectedTimeObj no_queries)"
    by (simp add: no_queries_def invalid_start_def spec_time_not_ready_def)
  have gate: "\<not> isQueryDependentOnTheVariables (values no_queries) (queries no_queries)"
    by (simp add: no_queries_def isQueryDependentOnTheVariables_def dependentVariables_def)
  have sync: "loadData_begin hour_fixedVariables no_adhoc no_queries initial_loader
       = (Threw TypeError,
          \<lparr>data = [], loading = False, errorDetail = [], metadata = None,
           isDirty = False, isVisible = False, currentDependentVariablesData = []\<rparr>)"
    using gate by (simp add: loadData_begin_def Let_def) (simp add: no_queries_def initial_loader_def)
  then have "loadData hour_fixedVariables no_adhoc no_queries second_rejects [] initial_loader
       = (Inl TypeError,
          \<lparr>data = [], loading = False, errorDetail = [], metadata = None,
           isDirty = False, isVisible = False, currentDependentVariablesData = []\<rparr>)"
    by (simp add: loadData_def)
  with not_ready sync show ?thesis by blast
qed

subsection \<open>The handlers and the completion of an attempt\<close>

lemma handler_effect_frame:
  "data (handler_effect qt x st) = data st"
  "metadata (handler_effect qt x st) = metadata st"
  "loading (handler_effect qt x st) = loading st"
  "isDirty (handler_effect qt x st) = isDirty st"
  by (simp_all add: handler_effect_def processApiError_def split: settled.splits option.splits)

lemma run_handlers_frame:
  "data (run_handlers qt outcome order st) = data st
   \<and> metadata (run_handlers qt outcome order st) = metadata st
   \<and> loading (run_handlers qt outcome order st) = loading st
   \<and> isDirty (run_handlers qt outcome order st) = isDirty st"
  unfolding run_handlers_def
  by (induction order arbitrary: st) (simp_all add: handler_effect_frame)

lemma run_handlers_snoc:
  "run_handlers qt outcome (order @ [i]) st =
     handler_effect qt (outcome i) (run_handlers qt outcome order st)"
  by (simp add: run_handlers_def)

lemma map_result_undefined: "None \<in> set its \<Longrightarrow> map_result its = Inl TypeError"
proof (induction its)
  case Nil
  then show ?case by simp
next
  case (Cons it its)
  then show ?case by (cases it) auto
qed

lemma loadData_complete_undefined:
  "None \<in> set its \<Longrightarrow> loadData_complete its st = (Inl TypeError, st\<lparr>loading := False\<rparr>)"
  by (simp add: loadData_complete_def map_result_undefined)

lemma loadData_rejected:
  assumes "loadData_begin fv ah inp st = (Dispatched calls, st')"
    and "i < length calls"
    and "outcome i = Rejected err"
  shows "fst (loadData fv ah inp outcome order st) = Inl TypeError"
    and "data (snd (loadData fv ah inp outcome order st)) = data st'"
    and "metadata (snd (loadData fv ah inp outcome order st)) = metadata st'"
proof -
  let ?its = "map (\<lambda>(i, call). handler_value (snd call) (outcome i)) (zip [0..<length calls] calls)"
  have "(i, calls ! i) \<in> set (zip [0..<length calls] calls)"
    using assms(2) by (auto simp: set_zip intro!: exI [of _ i])
  then have "handler_value (snd (calls ! i)) (outcome i) \<in> set ?its"
    by (force simp del: set_zip)
  then have "None \<in> set ?its"
    using assms(3) by (simp add: handler_value_def)
  then have "loadData_complete ?its (run_handlers (queryType inp) outcome order st')
      = (Inl TypeError, (run_handlers (queryType inp) outcome order st')\<lparr>loading := False\<rparr>)"
    by (rule loadData_complete_undefined)
  then have *: "loadData fv ah inp outcome order st
      = (Inl TypeError, (run_handlers (queryType inp) outcome order st')\<lparr>loading := False\<rparr>)"
    using assms(1) by (simp add: loadData_def)
  show "fst (loadData fv ah inp outcome order st) = Inl TypeError"
    and "data (snd (loadData fv ah inp outcome order st)) = data st'"
    and "metadata (snd (loadData fv ah inp outcome order st)) = metadata st'"
    by (simp_all add: * run_handlers_frame)
qed

lemma two_queries_begin:
  "loadData_begin hour_fixedVariables no_adhoc two_queries initial_loader =
    (Dispatched
       [(Metrics_query_range ''up'' 0 3600000,
         \<lparr>md_originalQuery = ''up'', md_query = ''up'', md_startTime = 0, md_endTime = 3600000,
          md_queryType = ''promql'', md_variables = []\<rparr>),
        (Metrics_query_range ''down'' 0 3600000,
         \<lparr>md_originalQuery = ''down'', md_query = ''down'', md_startTime = 0,
          md_endTime = 3600000, md_queryType = ''promql'', md_variables = []\<rparr>)],
     \<lparr>data = [], loading = True, errorDetail = [], metadata = None, isDirty = False,
      isVisible = False, currentDependentVariablesData = []\<rparr>)"
  by (simp add: loadData_begin_def two_queries_def isQueryDependentOnTheVariables_def
        canRunQueryBasedOnVariables_def dependentVariables_def resolve_timestamps_def
        one_hour_def dispatch_def replaceQueryValue_def hour_fixedVariables_def no_adhoc_def
        initial_loader_def Let_def substitute_absent)

text \<open>
  Claim C1 fails on the code. On a panel with two sub-queries whose first call resolves
  and whose second call rejects, \<^verbatim>\<open>loadData\<close> ends with a TypeError: the handler of the
  rejected call gives undefined, and \<^verbatim>\<open>queryResults.map((it) => it.result)\<close> reads a
  property of it. \<^verbatim>\<open>loading\<close> is reset, \<^verbatim>\<open>data\<close> and \<^verbatim>\<open>metadata\<close> stay as they were.
  \<^verbatim>\<open>errorDetail\<close> holds the message when the rejection is handled last, and is empty
  when the success is. \<open>loadData_rejected\<close> is the general statement.
\<close>
theorem loadData_partial_failure:
  "loadData hour_fixedVariables no_adhoc two_queries second_rejects [0, 1] initial_loader
     = (Inl TypeError,
        \<lparr>data = [], loading = False, errorDetail = ''boom'', metadata = None,
         isDirty = False, isVisible = False, currentDependentVariablesData = []\<rparr>)
   \<and> loadData hour_fixedVariables no_adhoc two_queries second_rejects [1, 0] initial_loader
     = (Inl TypeError,
        \<lparr>data = [], loading = False, errorDetail = [], metadata = None,
         isDirty = False, isVisible = False, currentDependentVariablesData = []\<rparr>)"
proof -
  have queryType: "queryType two_queries = ''promql''"
    by (simp add: two_queries_def)
  have settled: "second_rejects 0 = Resolved [1, 2, 3]" "second_rejects (Suc 0) = Rejected boom"
    by (simp_all add: second_rejects_def)
  show ?thesis
    by (simp add: loadData_def two_queries_begin queryType upt_rec handler_value_def settled
          loadData_complete_def run_handlers_def handler_effect_def boom_def
          processApiError_def js_or_def trimmedErrorMessage_def)
qed

text \<open>
  Claim C10. The handler of a call that resolves sets \<^verbatim>\<open>errorDetail\<close> to the empty
  string whatever it held, so it is empty after any sequence of handlers that ends with
  one of a resolved call; and when \<^verbatim>\<open>errorDetail\<close> is not empty after the handlers of an
  attempt, the last handler was the one of a rejected call.
\<close>
theorem success_erases_errorDetail:
  "errorDetail (handler_effect qt (Resolved r) st) = []
   \<and> (outcome i = Resolved r \<longrightarrow>
        errorDetail (run_handlers qt outcome (order @ [i]) st) = [])
   \<and> (order \<noteq> [] \<and> errorDetail (run_handlers qt outcome order st) \<noteq> [] \<longrightarrow>
        (\<exists>err. outcome (last order) = Rejected err))"
proof -
  have reset: "errorDetail (handler_effect qt (Resolved r) st') = []" for st' :: "'a loader"
    by (simp add: handler_effect_def)
  have after: "errorDetail (run_handlers qt outcome (order @ [i]) st) = []"
    if "outcome i = Resolved r"
    using that reset by (simp add: run_handlers_snoc)
  have last: "\<exists>err. outcome (last order) = Rejected err"
    if "order \<noteq> []" "errorDetail (run_handlers qt outcome order st) \<noteq> []"
  proof (rule ccontr)
    assume "\<nexists>err. outcome (last order) = Rejected err"
    then obtain res where res: "outcome (last order) = Resolved res"
      by (cases "outcome (last order)") auto
    from that(1) have "order = butlast order @ [last order]" by simp
    then have "run_handlers qt outcome order st
        = handler_effect qt (outcome (last order)) (run_handlers qt outcome (butlast order) st)"
      by (metis run_handlers_snoc)
    then have "errorDetail (run_handlers qt outcome order st) = []"
      by (simp add: res handler_effect_def)
    with that(2) show False by simp
  qed
  from reset after last show ?thesis by blast
qed

theorem success_erases_errorDetail_witness:
  "first_rejects 1 = Resolved [1, 2, 3]
   \<and> errorDetail (run_handlers ''promql'' first_rejects [0] initial_loader) = ''boom''
   \<and> errorDetail (run_handlers ''promql'' first_rejects ([0] @ [1]) initial_loader) = []
   \<and> errorDetail (run_handlers ''promql'' first_rejects [1, 0] initial_loader) = ''boom''
   \<and> first_rejects (last [1, 0]) = Rejected boom"
proof -
  have 1: "first_rejects 1 = Resolved [1, 2, 3]" "first_rejects 0 = Rejected boom"
    by (simp_all add: first_rejects_def)
  have 2: "errorDetail (run_handlers ''promql'' first_rejects [0] initial_loader) = ''boom''"
    "errorDetail (run_handlers ''promql'' first_rejects [1, 0] initial_loader) = ''boom''"
    by (simp_all add: run_handlers_def handler_effect_def 1 boom_def
          processApiError_def js_or_def trimmedErrorMessage_def)
  show ?thesis
    using 1 2
      success_erases_errorDetail [where outcome = first_rejects and i = 1 and r = "[1, 2, 3]"
        and order = "[0]" and qt = "''promql''" and st = initial_loader]
      success_erases_errorDetail [where outcome = first_rejects and order = "[1, 0]"
        and qt = "''promql''" and st = initial_loader]
    by simp
qed

end
